theory Spec2Isabelle
  imports Main "HOL-Library.Word" "HOL-Library.Mapping" "HOL-Library.AList_Mapping"
    "HOL-Library.Multiset"
begin

section \<open>Server configuration (internal/config/server.go)\<close>

text \<open>
  \<^verbatim>\<open>time.Duration\<close> is an \<^verbatim>\<open>int64\<close>; its comparisons with 0 are signed, so a duration is a
  64-bit word read through \<open>sint\<close>. \<^verbatim>\<open>Port\<close> is a Go \<^verbatim>\<open>int\<close>; only comparisons
  are made on it, so it is an \<open>int\<close>. A Go \<^verbatim>\<open>error\<close> is represented by its message, \<open>None\<close>
  being \<^verbatim>\<open>nil\<close>.
\<close>

type_synonym Duration = "64 word"

type_synonym go_error = "string option"

record ServerConfig =
  Host :: string
  Port :: int
  WriteTimeout :: Duration
  ReadTimeout :: Duration
  IdleTimeout :: Duration
  AllowedOrigins :: "string list"
  LogLevel :: string

text \<open>
  \<^verbatim>\<open>net.ParseIP\<close> belongs to the Go standard library. It is a parameter of the model:
  \<open>ParseIP s = None\<close> stands for the \<^verbatim>\<open>nil\<close> result on a string that is no IP address.
\<close>

definition Validate :: "(string \<Rightarrow> 'ip option) \<Rightarrow> ServerConfig \<Rightarrow> go_error" where
  "Validate ParseIP cfg =
     (let ip = ParseIP (Host cfg) in
      if ip = None then Some (''invalid host: '' @ Host cfg)
      else if Port cfg < 0 \<or> Port cfg > 65535 then Some ''invalid port''
      else if sint (WriteTimeout cfg) < 0 then Some ''write timeout cannot be negative''
      else if sint (ReadTimeout cfg) < 0 then Some ''read timeout cannot be negative''
      else if sint (IdleTimeout cfg) < 0 then Some ''idle timeout cannot be negative''
      else None)"

text \<open>
  \<^verbatim>\<open>zerolog.Level\<close> is an \<^verbatim>\<open>int8\<close>. The library declares \<^verbatim>\<open>DebugLevel\<close> as 0 and
  counts upwards through info, warn, error, fatal (4), panic, no level and disabled (7);
  \<^verbatim>\<open>TraceLevel\<close> is -1. \<^verbatim>\<open>zerolog.ParseLevel\<close> is a parameter of the model; it returns a
  level together with an error.
\<close>

type_synonym Level = "8 word"

definition DebugLevel :: Level where "DebugLevel = 0"
definition FatalLevel :: Level where "FatalLevel = 4"
definition Disabled :: Level where "Disabled = 7"
definition TraceLevel :: Level where "TraceLevel = - 1"

definition ValidateServerLogLevel :: "(string \<Rightarrow> Level \<times> go_error) \<Rightarrow> ServerConfig \<Rightarrow> go_error" where
  "ValidateServerLogLevel ParseLevel cfg =
     (if LogLevel cfg = [] then None
      else (case ParseLevel (LogLevel cfg) of
              (parsedLevel, Some err) \<Rightarrow> Some (''invalid log level: '' @ err)
            | (parsedLevel, None) \<Rightarrow>
                if sint parsedLevel < sint DebugLevel \<or> sint parsedLevel > sint FatalLevel
                then Some ''only log levels from debug to fatal are supported''
                else None))"

section \<open>Request handlers (package handlers)\<close>

subsection \<open>Values exchanged with the collaborators\<close>

text \<open>
  The handlers return a \<^verbatim>\<open>*Result\<close> and a \<^verbatim>\<open>*types.Error\<close>; a \<^verbatim>\<open>nil\<close> pointer is \<open>None\<close>.
  A Go function with two results is a function into a pair, so that a collaborator which
  returns a value together with an error is covered as well.
\<close>

datatype ErrorCode = BadRequest | OtherErrorCode string

record Error =
  StatusCode :: int
  ErrorCode :: ErrorCode
  Err :: string

definition StatusBadRequest :: int where
  "StatusBadRequest = 400"

text \<open>
  Modelled from the spec: \<^verbatim>\<open>types.NewErrorWithMsg\<close> is declared outside the given sources.
  An error carries an HTTP-style status, an error code and a human-readable reason.
\<close>

definition NewErrorWithMsg :: "int \<Rightarrow> ErrorCode \<Rightarrow> string \<Rightarrow> Error" where
  "NewErrorWithMsg statusCode errorCode msg =
     \<lparr>StatusCode = statusCode, ErrorCode = errorCode, Err = msg\<rparr>"

datatype Data = IntData int | BoolData bool

text \<open>
  Modelled from the spec: \<^verbatim>\<open>NewResult\<close> is declared outside the given sources. A response
  wraps the computed scalar (an integer count or a boolean) as its data.
\<close>

datatype Result = Result (Data: Data)

definition NewResult :: "Data \<Rightarrow> Result" where
  "NewResult data = Result data"

text \<open>
  Of a delegation the handlers read the staker key and the state only; both are strings.
\<close>

record DelegationPublic =
  StakerPkHex :: string
  State :: string

text \<open>
  Of a request the handlers read the URL query, a \<^verbatim>\<open>map[string][]string\<close>. \<^verbatim>\<open>Values.Get\<close>
  (Go standard library) returns the first value stored under the key, and the empty string
  when there is none.
\<close>

record Request =
  URL_Query :: "string \<rightharpoonup> string list"

definition Get :: "(string \<rightharpoonup> string list) \<Rightarrow> string \<Rightarrow> string" where
  "Get v key = (case v key of None \<Rightarrow> [] | Some [] \<Rightarrow> [] | Some (x # vs) \<Rightarrow> x)"

text \<open>
  The service layer is reached through \<^verbatim>\<open>h.services\<close>. Its methods are outside the given
  sources and are the fields of a record; the request context they also receive is left
  out. Every call of a service method is recorded, in order, so that the model tells
  which collaborator a handler invokes and with which arguments. The debug log lines of
  the handlers do not influence what is returned and are not modelled.
\<close>

record 'addr Services =
  DelegationsByFinalityProviderPkHex :: "string \<Rightarrow> DelegationPublic list \<times> Error option"
  StakerCountByStakerPk :: "string \<Rightarrow> int \<times> Error option"
  CheckStakerHasActiveDelegationByAddress :: "'addr \<Rightarrow> int \<Rightarrow> bool \<times> Error option"

datatype 'addr ServiceCall =
    DelegationsByFinalityProviderPkHexCall string
  | StakerCountByStakerPkCall string
  | CheckStakerHasActiveDelegationByAddressCall 'addr int

record ('net, 'addr) Handler =
  BTCNetParam :: 'net
  services :: "'addr Services"

text \<open>
  What the handlers use and the given sources do not declare is collected in an
  environment: the two query parsers of the package, the string of the state
  \<^verbatim>\<open>types.Unbonded\<close>, and the wall clock in Unix seconds.
\<close>

record ('net, 'addr) Env =
  parsePublicKeyQuery :: "Request \<Rightarrow> string \<Rightarrow> string \<times> Error option"
  parseBtcAddressQuery :: "Request \<Rightarrow> string \<Rightarrow> 'net \<Rightarrow> 'addr \<times> Error option"
  Unbonded_ToString :: string
  time_Now_Unix :: int

record 'addr Outcome =
  ret_result :: "Result option"
  ret_err :: "Error option"
  service_calls :: "'addr ServiceCall list"

subsection \<open>The counting loops\<close>

text \<open>
  \<^verbatim>\<open>countMap[delegation.StakerPkHex]++\<close> reads the counter of the key, 0 when the key is
  absent, and stores its successor. The counters are never read afterwards; only the
  number of keys (\<^verbatim>\<open>len(countMap)\<close>) is returned.
\<close>

fun countMap_loop ::
  "string \<Rightarrow> DelegationPublic list \<Rightarrow> (string, int) mapping \<Rightarrow> (string, int) mapping" where
  "countMap_loop unbonded [] countMap = countMap"
| "countMap_loop unbonded (delegation # delegations) countMap =
     (if State delegation = unbonded then countMap_loop unbonded delegations countMap
      else countMap_loop unbonded delegations
             (Mapping.update (StakerPkHex delegation)
                (Mapping.lookup_default 0 countMap (StakerPkHex delegation) + 1) countMap))"

fun countSlice_loop :: "string \<Rightarrow> DelegationPublic list \<Rightarrow> string list \<Rightarrow> string list" where
  "countSlice_loop unbonded [] countSlice = countSlice"
| "countSlice_loop unbonded (delegation # delegations) countSlice =
     (if State delegation = unbonded then countSlice_loop unbonded delegations countSlice
      else countSlice_loop unbonded delegations (countSlice @ [StakerPkHex delegation]))"

subsection \<open>The handlers\<close>

definition GetStakerCountByFinalityProvider ::
  "('net, 'addr) Env \<Rightarrow> ('net, 'addr) Handler \<Rightarrow> Request \<Rightarrow> 'addr Outcome" where
  "GetStakerCountByFinalityProvider env h request =
     (case parsePublicKeyQuery env request ''finality_provider_pk_hex'' of
        (finalityProviderPkHex, Some err) \<Rightarrow>
          \<lparr>ret_result = None, ret_err = Some err, service_calls = []\<rparr>
      | (finalityProviderPkHex, None) \<Rightarrow>
          (case DelegationsByFinalityProviderPkHex (services h) finalityProviderPkHex of
             (delegations, Some err) \<Rightarrow>
               \<lparr>ret_result = None, ret_err = Some err,
                service_calls = [DelegationsByFinalityProviderPkHexCall finalityProviderPkHex]\<rparr>
           | (delegations, None) \<Rightarrow>
               (let countMap = countMap_loop (Unbonded_ToString env) delegations Mapping.empty
                in \<lparr>ret_result = Some (NewResult (IntData (int (Mapping.size countMap)))),
                    ret_err = None,
                    service_calls =
                      [DelegationsByFinalityProviderPkHexCall finalityProviderPkHex]\<rparr>)))"

definition GetDelegationsCountByFinalityProvider ::
  "('net, 'addr) Env \<Rightarrow> ('net, 'addr) Handler \<Rightarrow> Request \<Rightarrow> 'addr Outcome" where
  "GetDelegationsCountByFinalityProvider env h request =
     (case parsePublicKeyQuery env request ''finality_provider_pk_hex'' of
        (finalityProviderPkHex, Some err) \<Rightarrow>
          \<lparr>ret_result = None, ret_err = Some err, service_calls = []\<rparr>
      | (finalityProviderPkHex, None) \<Rightarrow>
          (case DelegationsByFinalityProviderPkHex (services h) finalityProviderPkHex of
             (delegations, Some err) \<Rightarrow>
               \<lparr>ret_result = None, ret_err = Some err,
                service_calls = [DelegationsByFinalityProviderPkHexCall finalityProviderPkHex]\<rparr>
           | (delegations, None) \<Rightarrow>
               (let countSlice = countSlice_loop (Unbonded_ToString env) delegations []
                in \<lparr>ret_result = Some (NewResult (IntData (int (length countSlice)))),
                    ret_err = None,
                    service_calls =
                      [DelegationsByFinalityProviderPkHexCall finalityProviderPkHex]\<rparr>)))"

definition GetStakerCountByStakerPk ::
  "('net, 'addr) Env \<Rightarrow> ('net, 'addr) Handler \<Rightarrow> Request \<Rightarrow> 'addr Outcome" where
  "GetStakerCountByStakerPk env h request =
     (case parsePublicKeyQuery env request ''finality_provider_pk_hex'' of
        (finalityProviderPkHex, Some err) \<Rightarrow>
          \<lparr>ret_result = None, ret_err = Some err, service_calls = []\<rparr>
      | (finalityProviderPkHex, None) \<Rightarrow>
          (case StakerCountByStakerPk (services h) finalityProviderPkHex of
             (cnt, Some err) \<Rightarrow>
               \<lparr>ret_result = None, ret_err = Some err,
                service_calls = [StakerCountByStakerPkCall finalityProviderPkHex]\<rparr>
           | (cnt, None) \<Rightarrow>
               \<lparr>ret_result = Some (NewResult (IntData cnt)), ret_err = None,
                service_calls = [StakerCountByStakerPkCall finalityProviderPkHex]\<rparr>))"

text \<open>
  Modelled from the spec: \<^verbatim>\<open>utils.GetTodayStartTimestampInSeconds\<close> is declared outside the
  given sources. It is the start of the current UTC day in Unix seconds; a Unix day has
  86400 seconds, and the clock is the argument.
\<close>

definition GetTodayStartTimestampInSeconds :: "int \<Rightarrow> int" where
  "GetTodayStartTimestampInSeconds now = now - now mod 86400"

definition parseTimeframeToAfterTimestamp :: "int \<Rightarrow> string \<Rightarrow> int \<times> Error option" where
  "parseTimeframeToAfterTimestamp now timeframe =
     (if timeframe = [] then (0, None)
      else if timeframe = ''today'' then (GetTodayStartTimestampInSeconds now, None)
      else (0, Some (NewErrorWithMsg StatusBadRequest BadRequest ''invalid timeframe value'')))"

definition CheckStakerDelegationExist ::
  "('net, 'addr) Env \<Rightarrow> ('net, 'addr) Handler \<Rightarrow> Request \<Rightarrow> 'addr Outcome" where
  "CheckStakerDelegationExist env h request =
     (case parseBtcAddressQuery env request ''address'' (BTCNetParam h) of
        (address, Some err) \<Rightarrow> \<lparr>ret_result = None, ret_err = Some err, service_calls = []\<rparr>
      | (address, None) \<Rightarrow>
          (case parseTimeframeToAfterTimestamp (time_Now_Unix env)
                  (Get (URL_Query request) ''timeframe'') of
             (afterTimestamp, Some err) \<Rightarrow>
               \<lparr>ret_result = None, ret_err = Some err, service_calls = []\<rparr>
           | (afterTimestamp, None) \<Rightarrow>
               (case CheckStakerHasActiveDelegationByAddress (services h) address afterTimestamp of
                  (exist, Some err) \<Rightarrow>
                    \<lparr>ret_result = None, ret_err = Some err,
                     service_calls =
                       [CheckStakerHasActiveDelegationByAddressCall address afterTimestamp]\<rparr>
                | (exist, None) \<Rightarrow>
                    \<lparr>ret_result = Some (NewResult (BoolData exist)), ret_err = None,
                     service_calls =
                       [CheckStakerHasActiveDelegationByAddressCall address afterTimestamp]\<rparr>)))"


section \<open>Concrete collaborators for evaluation\<close>

text \<open>
  A small environment, service layer and request, on which the handlers are evaluated:
  the parsers accept any non-empty value of the named query parameter, the state
  \<^verbatim>\<open>types.Unbonded\<close> prints as \<open>''unbonded''\<close>, and the services answer for the key
  \<open>''fp''\<close> and the address \<open>''bc1p''\<close> and fail for every other one.
\<close>

definition example_ParseIP :: "string \<Rightarrow> nat option" where
  "example_ParseIP s = (if s = ''127.0.0.1'' then Some 1 else None)"

definition example_ParseLevel :: "string \<Rightarrow> Level \<times> go_error" where
  "example_ParseLevel s =
     (if s = ''trace'' then (TraceLevel, None)
      else if s = ''debug'' then (DebugLevel, None)
      else if s = ''fatal'' then (FatalLevel, None)
      else if s = ''disabled'' then (Disabled, None)
      else (6, Some ''Unknown Level String''))"

definition example_cfg :: "int \<Rightarrow> Duration \<Rightarrow> string \<Rightarrow> ServerConfig" where
  "example_cfg port readTimeout logLevel =
     \<lparr>Host = ''127.0.0.1'', Port = port, WriteTimeout = 15, ReadTimeout = readTimeout,
      IdleTimeout = 0, AllowedOrigins = [''*''], LogLevel = logLevel\<rparr>"

definition upstream_error :: Error where
  "upstream_error = NewErrorWithMsg 500 (OtherErrorCode ''INTERNAL_SERVICE_ERROR'') ''upstream failure''"

definition example_parse :: "Request \<Rightarrow> string \<Rightarrow> string \<times> Error option" where
  "example_parse request queryName =
     (let v = Get (URL_Query request) queryName
      in if v = [] then ([], Some (NewErrorWithMsg StatusBadRequest BadRequest ''missing key''))
         else (v, None))"

definition example_env :: "(unit, string) Env" where
  "example_env =
     \<lparr>parsePublicKeyQuery = example_parse,
      parseBtcAddressQuery = (\<lambda>request queryName net. example_parse request queryName),
      Unbonded_ToString = ''unbonded'',
      time_Now_Unix = 1718000000\<rparr>"

definition example_services :: "DelegationPublic list \<Rightarrow> string Services" where
  "example_services ds =
     \<lparr>DelegationsByFinalityProviderPkHex =
        (\<lambda>k. if k = ''fp'' then (ds, None) else (ds, Some upstream_error)),
      StakerCountByStakerPk =
        (\<lambda>k. if k = ''fp'' then (7, None) else (7, Some upstream_error)),
      CheckStakerHasActiveDelegationByAddress =
        (\<lambda>address afterTimestamp.
           if address = ''bc1p'' then (afterTimestamp \<le> 1717900000, None)
           else (True, Some upstream_error))\<rparr>"

definition example_handler :: "DelegationPublic list \<Rightarrow> (unit, string) Handler" where
  "example_handler ds = \<lparr>BTCNetParam = (), services = example_services ds\<rparr>"

definition example_request :: "string \<Rightarrow> string \<Rightarrow> string \<Rightarrow> Request" where
  "example_request pk address timeframe =
     \<lparr>URL_Query = [''finality_provider_pk_hex'' \<mapsto> [pk], ''address'' \<mapsto> [address],
                  ''timeframe'' \<mapsto> [timeframe]]\<rparr>"

definition delegation :: "string \<Rightarrow> string \<Rightarrow> DelegationPublic" where
  "delegation staker st = \<lparr>StakerPkHex = staker, State = st\<rparr>"

section \<open>The counting loops in closed form\<close>

lemma keys_countMap_loop:
  "Mapping.keys (countMap_loop u ds m) =
     Mapping.keys m \<union> set (map StakerPkHex (filter (\<lambda>d. State d \<noteq> u) ds))"
  by (induction ds arbitrary: m) auto

lemma size_countMap_loop_empty:
  "Mapping.size (countMap_loop u ds Mapping.empty) =
     card (set (map StakerPkHex (filter (\<lambda>d. State d \<noteq> u) ds)))"
  by (simp add: Mapping.size_def keys_countMap_loop)

lemma countSlice_loop_eq:
  "countSlice_loop u ds acc = acc @ map StakerPkHex (filter (\<lambda>d. State d \<noteq> u) ds)"
  by (induction ds arbitrary: acc) auto

lemma card_as_contributions:
  "card (set (map StakerPkHex (filter (\<lambda>d. State d \<noteq> u) ds))) =
     (\<Sum>s \<in> set (map StakerPkHex ds).
        if 0 < length (filter (\<lambda>d. StakerPkHex d = s \<and> State d \<noteq> u) ds) then 1 else 0)"
proof -
  let ?P = "\<lambda>s. 0 < length (filter (\<lambda>d. StakerPkHex d = s \<and> State d \<noteq> u) ds)"
  have "set (map StakerPkHex (filter (\<lambda>d. State d \<noteq> u) ds)) =
        set (map StakerPkHex ds) \<inter> {s. ?P s}" (is "?L = ?R")
  proof
    show "?L \<subseteq> ?R"
      by (auto simp: filter_empty_conv)
    show "?R \<subseteq> ?L"
    proof
      fix s
      assume "s \<in> ?R"
      then obtain d where "d \<in> set ds" "StakerPkHex d = s" "State d \<noteq> u"
        by (auto simp: filter_empty_conv)
      then show "s \<in> ?L"
        by force
    qed
  qed
  moreover have "(\<Sum>s \<in> set (map StakerPkHex ds). if ?P s then 1 else 0) =
      card (set (map StakerPkHex ds) \<inter> {s. ?P s})"
    by (simp only: sum.If_cases [OF finite_set] sum.neutral_const add_0_right card_eq_sum)
  ultimately show ?thesis
    by (simp only:)
qed

lemma two_stakers_example:
  assumes "A \<noteq> B" and "active \<noteq> unb"
  shows "filter (\<lambda>d. State d \<noteq> unb)
           [\<lparr>StakerPkHex = A, State = active\<rparr>, \<lparr>StakerPkHex = A, State = unb\<rparr>,
            \<lparr>StakerPkHex = B, State = active\<rparr>] =
         [\<lparr>StakerPkHex = A, State = active\<rparr>, \<lparr>StakerPkHex = B, State = active\<rparr>]"
  using assms by simp

lemma filter_insert_unbonded:
  assumes "State u = unb"
  shows "filter (\<lambda>d. State d \<noteq> unb) (take i ds @ u # drop i ds) =
         filter (\<lambda>d. State d \<noteq> unb) ds"
proof -
  have "filter (\<lambda>d. State d \<noteq> unb) (take i ds @ u # drop i ds) =
      filter (\<lambda>d. State d \<noteq> unb) (take i ds) @ filter (\<lambda>d. State d \<noteq> unb) (drop i ds)"
    using assms by simp
  also have "\<dots> = filter (\<lambda>d. State d \<noteq> unb) (take i ds @ drop i ds)"
    by (simp only: filter_append)
  also have "\<dots> = filter (\<lambda>d. State d \<noteq> unb) ds"
    by (simp only: append_take_drop_id)
  finally show ?thesis .
qed

section \<open>Properties of the handlers\<close>

text \<open>
  C1. As stated, the claim does not hold: \<^verbatim>\<open>GetStakerCountByStakerPk\<close> reads its key from
  the query parameter \<^verbatim>\<open>finality_provider_pk_hex\<close>, but the collaborator it then calls is
  the staker-keyed count \<^verbatim>\<open>StakerCountByStakerPk\<close>, with that key. What holds, with
  \<open>key\<close> and \<open>parseErr\<close> naming what the parser returns for that parameter: the handler
  makes exactly one service call, \<^verbatim>\<open>StakerCountByStakerPk\<close> on \<open>key\<close>, when the parameter
  parses, and no service call at all when it does not; on no request does it call the
  provider-keyed fetch \<^verbatim>\<open>DelegationsByFinalityProviderPkHex\<close>, and replacing that fetch by
  any other one never changes the outcome. The error returned is the parser's, or else
  the one of the staker-keyed call; the result is the count of that call when neither
  failed, and absent otherwise.
\<close>

theorem GetStakerCountByStakerPk_staker_keyed:
  assumes "parsePublicKeyQuery env request ''finality_provider_pk_hex'' = (key, parseErr)"
  shows "service_calls (GetStakerCountByStakerPk env h request) =
           (if parseErr = None then [StakerCountByStakerPkCall key] else []) \<and>
         (\<forall>k. DelegationsByFinalityProviderPkHexCall k \<notin>
               set (service_calls (GetStakerCountByStakerPk env h request))) \<and>
         (\<forall>fetch. GetStakerCountByStakerPk env
            (h\<lparr>services := (services h)\<lparr>DelegationsByFinalityProviderPkHex := fetch\<rparr>\<rparr>)
            request = GetStakerCountByStakerPk env h request) \<and>
         ret_err (GetStakerCountByStakerPk env h request) =
           (if parseErr = None then snd (StakerCountByStakerPk (services h) key)
            else parseErr) \<and>
         ret_result (GetStakerCountByStakerPk env h request) =
           (if parseErr = None \<and> snd (StakerCountByStakerPk (services h) key) = None
            then Some (NewResult (IntData (fst (StakerCountByStakerPk (services h) key))))
            else None)"
proof (cases parseErr)
  case None
  with assms show ?thesis
    by (simp add: GetStakerCountByStakerPk_def split: prod.splits option.splits)
next
  case (Some err)
  with assms show ?thesis
    by (simp add: GetStakerCountByStakerPk_def)
qed

theorem GetStakerCountByStakerPk_staker_keyed_witness:
  "parsePublicKeyQuery example_env (example_request ''fp'' [] [])
     ''finality_provider_pk_hex'' = (''fp'', None) \<and>
   GetStakerCountByStakerPk example_env
     (example_handler [delegation ''A'' ''active'']) (example_request ''fp'' [] []) =
     \<lparr>ret_result = Some (NewResult (IntData 7)), ret_err = None,
      service_calls = [StakerCountByStakerPkCall ''fp'']\<rparr> \<and>
   parsePublicKeyQuery example_env (example_request [] [] [])
     ''finality_provider_pk_hex'' =
     ([], Some (NewErrorWithMsg StatusBadRequest BadRequest ''missing key'')) \<and>
   GetStakerCountByStakerPk example_env
     (example_handler [delegation ''A'' ''active'']) (example_request [] [] []) =
     \<lparr>ret_result = None,
      ret_err = Some (NewErrorWithMsg StatusBadRequest BadRequest ''missing key''),
      service_calls = []\<rparr> \<and>
   ret_err (GetStakerCountByStakerPk example_env
     (example_handler [delegation ''A'' ''active'']) (example_request ''other'' [] [])) =
     Some upstream_error"
  using
    GetStakerCountByStakerPk_staker_keyed [of example_env "example_request ''fp'' [] []"
      "''fp''" None "example_handler [delegation ''A'' ''active'']"]
    GetStakerCountByStakerPk_staker_keyed [of example_env "example_request [] [] []"
      "[]" "Some (NewErrorWithMsg StatusBadRequest BadRequest ''missing key'')"
      "example_handler [delegation ''A'' ''active'']"]
    GetStakerCountByStakerPk_staker_keyed [of example_env "example_request ''other'' [] []"
      "''other''" None "example_handler [delegation ''A'' ''active'']"]
  by (simp add: example_env_def example_handler_def example_services_def example_request_def
      example_parse_def Get_def)

text \<open>
  The counterexample to C1 as stated: on a request with key \<open>''fp''\<close> the staker count
  handler calls \<^verbatim>\<open>StakerCountByStakerPk\<close>, the count-by-finality-provider handler calls
  \<^verbatim>\<open>DelegationsByFinalityProviderPkHex\<close>, and the two call sequences differ.
\<close>

theorem GetStakerCountByStakerPk_provider_fetch_counterexample:
  "service_calls (GetStakerCountByStakerPk example_env
      (example_handler [delegation ''A'' ''active'']) (example_request ''fp'' [] [])) =
     [StakerCountByStakerPkCall ''fp''] \<and>
   service_calls (GetStakerCountByFinalityProvider example_env
      (example_handler [delegation ''A'' ''active'']) (example_request ''fp'' [] [])) =
     [DelegationsByFinalityProviderPkHexCall ''fp''] \<and>
   service_calls (GetStakerCountByStakerPk example_env
      (example_handler [delegation ''A'' ''active'']) (example_request ''fp'' [] [])) \<noteq>
   service_calls (GetStakerCountByFinalityProvider example_env
      (example_handler [delegation ''A'' ''active'']) (example_request ''fp'' [] []))"
  by (simp add: GetStakerCountByStakerPk_def GetStakerCountByFinalityProvider_def
      example_env_def example_handler_def example_services_def example_request_def
      example_parse_def Get_def)

text \<open>
  C2. When the key parses and the provider-keyed fetch returns the delegations without an
  error, \<^verbatim>\<open>GetStakerCountByFinalityProvider\<close> returns no error and the number of distinct
  staker keys among the delegations whose state is not the unbonded one. That number is
  the sum, over the staker keys that occur, of 1 for a staker with at least one such
  delegation and of 0 for every other staker.
\<close>

theorem GetStakerCountByFinalityProvider_distinct:
  assumes "parsePublicKeyQuery env request ''finality_provider_pk_hex'' = (pk, None)"
    and "DelegationsByFinalityProviderPkHex (services h) pk = (delegations, None)"
  shows "ret_err (GetStakerCountByFinalityProvider env h request) = None \<and>
    ret_result (GetStakerCountByFinalityProvider env h request) =
      Some (NewResult (IntData (int (card (set (map StakerPkHex
        (filter (\<lambda>d. State d \<noteq> Unbonded_ToString env) delegations))))))) \<and>
    card (set (map StakerPkHex (filter (\<lambda>d. State d \<noteq> Unbonded_ToString env) delegations))) =
      (\<Sum>s \<in> set (map StakerPkHex delegations).
         if 0 < length (filter (\<lambda>d. StakerPkHex d = s \<and> State d \<noteq> Unbonded_ToString env)
                          delegations)
         then 1 else 0)"
proof (intro conjI)
  show "ret_err (GetStakerCountByFinalityProvider env h request) = None"
    using assms by (simp add: GetStakerCountByFinalityProvider_def)
  show "ret_result (GetStakerCountByFinalityProvider env h request) =
      Some (NewResult (IntData (int (card (set (map StakerPkHex
        (filter (\<lambda>d. State d \<noteq> Unbonded_ToString env) delegations)))))))"
    using assms
    by (simp add: GetStakerCountByFinalityProvider_def size_countMap_loop_empty)
  show "card (set (map StakerPkHex (filter (\<lambda>d. State d \<noteq> Unbonded_ToString env) delegations))) =
      (\<Sum>s \<in> set (map StakerPkHex delegations).
         if 0 < length (filter (\<lambda>d. StakerPkHex d = s \<and> State d \<noteq> Unbonded_ToString env)
                          delegations)
         then 1 else 0)"
    by (rule card_as_contributions)
qed

theorem GetStakerCountByFinalityProvider_distinct_witness:
  "parsePublicKeyQuery example_env (example_request ''fp'' [] [])
     ''finality_provider_pk_hex'' = (''fp'', None) \<and>
   DelegationsByFinalityProviderPkHex
     (services (example_handler
        [delegation ''A'' ''active'', delegation ''A'' ''unbonded'',
         delegation ''A'' ''unbonding'', delegation ''A'' ''unbonded'',
         delegation ''A'' ''active''])) ''fp'' =
     ([delegation ''A'' ''active'', delegation ''A'' ''unbonded'',
       delegation ''A'' ''unbonding'', delegation ''A'' ''unbonded'',
       delegation ''A'' ''active''], None) \<and>
   ret_result (GetStakerCountByFinalityProvider example_env
      (example_handler
        [delegation ''A'' ''active'', delegation ''A'' ''unbonded'',
         delegation ''A'' ''unbonding'', delegation ''A'' ''unbonded'',
         delegation ''A'' ''active''])
      (example_request ''fp'' [] [])) = Some (NewResult (IntData 1))"
  using GetStakerCountByFinalityProvider_distinct [of example_env
      "example_request ''fp'' [] []" "''fp''"
      "example_handler
        [delegation ''A'' ''active'', delegation ''A'' ''unbonded'',
         delegation ''A'' ''unbonding'', delegation ''A'' ''unbonded'',
         delegation ''A'' ''active'']"
      "[delegation ''A'' ''active'', delegation ''A'' ''unbonded'',
        delegation ''A'' ''unbonding'', delegation ''A'' ''unbonded'',
        delegation ''A'' ''active'']"]
  by (simp add: example_env_def example_handler_def example_services_def example_request_def
      example_parse_def Get_def delegation_def)

text \<open>
  C3. When the key parses and the provider-keyed fetch returns the delegations without an
  error, \<^verbatim>\<open>GetDelegationsCountByFinalityProvider\<close> returns no error and the number of
  delegations whose state is not the unbonded one, every delegation counted by itself.
  For two different stakers \<open>A\<close> and \<open>B\<close> and a state \<open>active\<close> other than the unbonded
  one, the delegations \<open>[(A, active), (A, unbonded), (B, active)]\<close> give the delegation count
  2 and the distinct-staker count 2.
\<close>

theorem GetDelegationsCountByFinalityProvider_count:
  assumes "parsePublicKeyQuery env request ''finality_provider_pk_hex'' = (pk, None)"
    and "DelegationsByFinalityProviderPkHex (services h) pk = (delegations, None)"
  shows "ret_err (GetDelegationsCountByFinalityProvider env h request) = None \<and>
    ret_result (GetDelegationsCountByFinalityProvider env h request) =
      Some (NewResult (IntData (int (length
        (filter (\<lambda>d. State d \<noteq> Unbonded_ToString env) delegations))))) \<and>
    (A \<noteq> B \<and> active \<noteq> Unbonded_ToString env \<and>
     delegations = [\<lparr>StakerPkHex = A, State = active\<rparr>,
                    \<lparr>StakerPkHex = A, State = Unbonded_ToString env\<rparr>,
                    \<lparr>StakerPkHex = B, State = active\<rparr>] \<longrightarrow>
       ret_result (GetDelegationsCountByFinalityProvider env h request) =
         Some (NewResult (IntData 2)) \<and>
       ret_result (GetStakerCountByFinalityProvider env h request) =
         Some (NewResult (IntData 2)))"
proof -
  let ?live = "filter (\<lambda>d. State d \<noteq> Unbonded_ToString env) delegations"
  have err: "ret_err (GetDelegationsCountByFinalityProvider env h request) = None"
    using assms by (simp add: GetDelegationsCountByFinalityProvider_def)
  have cnt: "ret_result (GetDelegationsCountByFinalityProvider env h request) =
      Some (NewResult (IntData (int (length ?live))))"
    using assms
    by (simp add: GetDelegationsCountByFinalityProvider_def countSlice_loop_eq)
  have stk: "ret_result (GetStakerCountByFinalityProvider env h request) =
      Some (NewResult (IntData (int (card (set (map StakerPkHex ?live))))))"
    using assms
    by (simp add: GetStakerCountByFinalityProvider_def size_countMap_loop_empty)
  have ex: "ret_result (GetDelegationsCountByFinalityProvider env h request) =
         Some (NewResult (IntData 2)) \<and>
       ret_result (GetStakerCountByFinalityProvider env h request) =
         Some (NewResult (IntData 2))"
    if "A \<noteq> B \<and> active \<noteq> Unbonded_ToString env \<and>
     delegations = [\<lparr>StakerPkHex = A, State = active\<rparr>,
                    \<lparr>StakerPkHex = A, State = Unbonded_ToString env\<rparr>,
                    \<lparr>StakerPkHex = B, State = active\<rparr>]"
  proof -
    from that have "?live = [\<lparr>StakerPkHex = A, State = active\<rparr>,
        \<lparr>StakerPkHex = B, State = active\<rparr>]"
      using two_stakers_example [of A B active "Unbonded_ToString env"] by simp
    with that show ?thesis
      unfolding cnt stk by simp
  qed
  from err cnt ex show ?thesis
    by blast
qed

theorem GetDelegationsCountByFinalityProvider_count_witness:
  "parsePublicKeyQuery example_env (example_request ''fp'' [] [])
     ''finality_provider_pk_hex'' = (''fp'', None) \<and>
   ''A'' \<noteq> ''B'' \<and> ''active'' \<noteq> Unbonded_ToString example_env \<and>
   ret_result (GetDelegationsCountByFinalityProvider example_env
      (example_handler [delegation ''A'' ''active'', delegation ''A'' ''unbonded'',
         delegation ''B'' ''active''])
      (example_request ''fp'' [] [])) = Some (NewResult (IntData 2)) \<and>
   ret_result (GetStakerCountByFinalityProvider example_env
      (example_handler [delegation ''A'' ''active'', delegation ''A'' ''unbonded'',
         delegation ''B'' ''active''])
      (example_request ''fp'' [] [])) = Some (NewResult (IntData 2))"
  using GetDelegationsCountByFinalityProvider_count [of example_env
      "example_request ''fp'' [] []" "''fp''"
      "example_handler [delegation ''A'' ''active'', delegation ''A'' ''unbonded'',
         delegation ''B'' ''active'']"
      "[delegation ''A'' ''active'', delegation ''A'' ''unbonded'',
         delegation ''B'' ''active'']" "''A''" "''B''" "''active''"]
  by (simp add: example_env_def example_handler_def example_services_def example_request_def
      example_parse_def Get_def delegation_def)

text \<open>
  C4. \<^verbatim>\<open>parseTimeframeToAfterTimestamp\<close> maps the empty string to 0 without an error and
  \<open>''today''\<close> to the start of the current day without an error; that timestamp is a
  multiple of 86400 seconds, not after the clock and less than a day before it, which is
  00:00:00 UTC of the current day. Every other string yields the error with status 400,
  code \<^verbatim>\<open>BadRequest\<close> and reason \<open>''invalid timeframe value''\<close>; so the function succeeds
  on the empty string and on \<open>''today''\<close> only.
\<close>

theorem parseTimeframeToAfterTimestamp_cases:
  "parseTimeframeToAfterTimestamp now [] = (0, None) \<and>
   parseTimeframeToAfterTimestamp now ''today'' = (GetTodayStartTimestampInSeconds now, None) \<and>
   GetTodayStartTimestampInSeconds now mod 86400 = 0 \<and>
   GetTodayStartTimestampInSeconds now \<le> now \<and>
   now < GetTodayStartTimestampInSeconds now + 86400 \<and>
   (timeframe \<noteq> [] \<and> timeframe \<noteq> ''today'' \<longrightarrow>
      parseTimeframeToAfterTimestamp now timeframe =
        (0, Some \<lparr>StatusCode = 400, ErrorCode = BadRequest,
                  Err = ''invalid timeframe value''\<rparr>)) \<and>
   (snd (parseTimeframeToAfterTimestamp now timeframe) = None \<longleftrightarrow>
      timeframe = [] \<or> timeframe = ''today'')"
proof -
  have "GetTodayStartTimestampInSeconds now mod 86400 = 0"
    unfolding GetTodayStartTimestampInSeconds_def
    by (simp only: minus_mod_eq_mult_div mod_mult_self1_is_0)
  moreover have "GetTodayStartTimestampInSeconds now \<le> now"
    unfolding GetTodayStartTimestampInSeconds_def by simp
  moreover have "now < GetTodayStartTimestampInSeconds now + 86400"
    unfolding GetTodayStartTimestampInSeconds_def
    using pos_mod_bound [of 86400 now] by simp
  ultimately show ?thesis
    by (simp add: parseTimeframeToAfterTimestamp_def NewErrorWithMsg_def StatusBadRequest_def)
qed

theorem parseTimeframeToAfterTimestamp_cases_witness:
  "parseTimeframeToAfterTimestamp 1718000000 ''today'' = (1717977600, None) \<and>
   ''yesterday'' \<noteq> [] \<and> ''yesterday'' \<noteq> ''today'' \<and>
   parseTimeframeToAfterTimestamp 1718000000 ''yesterday'' =
     (0, Some \<lparr>StatusCode = 400, ErrorCode = BadRequest, Err = ''invalid timeframe value''\<rparr>)"
  using parseTimeframeToAfterTimestamp_cases [of 1718000000 "''yesterday''"]
  by (simp add: GetTodayStartTimestampInSeconds_def)

text \<open>
  C5. Let the address parser return \<open>address\<close> with \<open>addressErr\<close>, let \<open>timeframe\<close> be
  the value of the query parameter of that name, \<open>afterTimestamp\<close> the lower bound it
  resolves to, and let the address-keyed lookup return \<open>exist\<close> with \<open>lookupErr\<close> on
  them. \<^verbatim>\<open>CheckStakerDelegationExist\<close> returns an error exactly when the address parser
  failed, or the time frame is neither empty nor \<open>''today''\<close>, or the lookup failed; the
  error is the one of the first of these steps that failed. In every other case the result
  is the boolean \<open>exist\<close> of the lookup, called once with \<open>address\<close> and \<open>afterTimestamp\<close>;
  with an error no result is returned.
\<close>

theorem CheckStakerDelegationExist_error_iff:
  assumes "parseBtcAddressQuery env request ''address'' (BTCNetParam h) = (address, addressErr)"
    and "timeframe = Get (URL_Query request) ''timeframe''"
    and "afterTimestamp =
      (if timeframe = ''today'' then GetTodayStartTimestampInSeconds (time_Now_Unix env) else 0)"
    and "CheckStakerHasActiveDelegationByAddress (services h) address afterTimestamp =
      (exist, lookupErr)"
  shows "(ret_err (CheckStakerDelegationExist env h request) \<noteq> None \<longleftrightarrow>
            addressErr \<noteq> None \<or> (timeframe \<noteq> [] \<and> timeframe \<noteq> ''today'') \<or>
            lookupErr \<noteq> None) \<and>
         ret_err (CheckStakerDelegationExist env h request) =
           (if addressErr \<noteq> None then addressErr
            else if timeframe \<noteq> [] \<and> timeframe \<noteq> ''today''
            then Some (NewErrorWithMsg StatusBadRequest BadRequest ''invalid timeframe value'')
            else lookupErr) \<and>
         ret_result (CheckStakerDelegationExist env h request) =
           (if ret_err (CheckStakerDelegationExist env h request) = None
            then Some (NewResult (BoolData exist)) else None) \<and>
         (ret_err (CheckStakerDelegationExist env h request) = None \<longrightarrow>
            service_calls (CheckStakerDelegationExist env h request) =
              [CheckStakerHasActiveDelegationByAddressCall address afterTimestamp])"
  using assms
  by (auto simp: CheckStakerDelegationExist_def parseTimeframeToAfterTimestamp_def
      split: option.splits if_splits)



theorem CheckStakerDelegationExist_error_iff_witness:
  "ret_result (CheckStakerDelegationExist example_env (example_handler [])
     (example_request [] ''bc1p'' ''today'')) = Some (NewResult (BoolData False)) \<and>
   ret_err (CheckStakerDelegationExist example_env (example_handler [])
     (example_request [] ''bc1p'' ''today'')) = None \<and>
   service_calls (CheckStakerDelegationExist example_env (example_handler [])
     (example_request [] ''bc1p'' ''today'')) =
     [CheckStakerHasActiveDelegationByAddressCall ''bc1p'' 1717977600] \<and>
   ret_result (CheckStakerDelegationExist example_env (example_handler [])
     (example_request [] ''bc1p'' [])) = Some (NewResult (BoolData True)) \<and>
   ret_err (CheckStakerDelegationExist example_env (example_handler [])
     (example_request [] ''bc1p'' [])) = None \<and>
   service_calls (CheckStakerDelegationExist example_env (example_handler [])
     (example_request [] ''bc1p'' [])) =
     [CheckStakerHasActiveDelegationByAddressCall ''bc1p'' 0] \<and>
   ret_err (CheckStakerDelegationExist example_env (example_handler [])
     (example_request [] ''bc1p'' ''week'')) =
     Some (NewErrorWithMsg StatusBadRequest BadRequest ''invalid timeframe value'') \<and>
   ret_err (CheckStakerDelegationExist example_env (example_handler [])
     (example_request [] ''bc1q'' [])) = Some upstream_error"
proof -
  have today: "GetTodayStartTimestampInSeconds (time_Now_Unix example_env) = 1717977600"
    by (simp add: example_env_def GetTodayStartTimestampInSeconds_def)
  have parse: "parseBtcAddressQuery example_env (example_request [] a t) ''address'' n =
      (a, None)" if "a \<noteq> []" for a t n
    using that
    by (simp add: example_env_def example_request_def example_parse_def Get_def)
  have tf: "Get (URL_Query (example_request [] a t)) ''timeframe'' = t" for a t
    by (simp add: example_request_def Get_def)
  have lookup: "CheckStakerHasActiveDelegationByAddress (services (example_handler [])) a ts =
      (if a = ''bc1p'' then (ts \<le> 1717900000, None) else (True, Some upstream_error))" for a ts
    by (simp add: example_handler_def example_services_def)
  have 1: "ret_result (CheckStakerDelegationExist example_env (example_handler [])
     (example_request [] ''bc1p'' ''today'')) = Some (NewResult (BoolData False)) \<and>
   ret_err (CheckStakerDelegationExist example_env (example_handler [])
     (example_request [] ''bc1p'' ''today'')) = None \<and>
   service_calls (CheckStakerDelegationExist example_env (example_handler [])
     (example_request [] ''bc1p'' ''today'')) =
     [CheckStakerHasActiveDelegationByAddressCall ''bc1p'' 1717977600]"
    using CheckStakerDelegationExist_error_iff [of example_env
        "example_request [] ''bc1p'' ''today''" "example_handler []" "''bc1p''" None
        "''today''" 1717977600 False None]
    by (simp add: today parse tf lookup)
  have 2: "ret_result (CheckStakerDelegationExist example_env (example_handler [])
     (example_request [] ''bc1p'' [])) = Some (NewResult (BoolData True)) \<and>
   ret_err (CheckStakerDelegationExist example_env (example_handler [])
     (example_request [] ''bc1p'' [])) = None \<and>
   service_calls (CheckStakerDelegationExist example_env (example_handler [])
     (example_request [] ''bc1p'' [])) =
     [CheckStakerHasActiveDelegationByAddressCall ''bc1p'' 0]"
    using CheckStakerDelegationExist_error_iff [of example_env
        "example_request [] ''bc1p'' []" "example_handler []" "''bc1p''" None
        "[]" 0 True None]
    by (simp add: today parse tf lookup)
  have 3: "ret_err (CheckStakerDelegationExist example_env (example_handler [])
     (example_request [] ''bc1p'' ''week'')) =
     Some (NewErrorWithMsg StatusBadRequest BadRequest ''invalid timeframe value'')"
    using CheckStakerDelegationExist_error_iff [of example_env
        "example_request [] ''bc1p'' ''week''" "example_handler []" "''bc1p''" None
        "''week''" 0 True None]
    by (simp add: today parse tf lookup)
  have 4: "ret_err (CheckStakerDelegationExist example_env (example_handler [])
     (example_request [] ''bc1q'' [])) = Some upstream_error"
    using CheckStakerDelegationExist_error_iff [of example_env
        "example_request [] ''bc1q'' []" "example_handler []" "''bc1q''" None
        "[]" 0 True "Some upstream_error"]
    by (simp add: today parse tf lookup)
  from 1 2 3 4 show ?thesis
    by simp
qed

text \<open>
  C6. Let the provider-keyed fetch return the delegations \<open>ds\<close> for one handler and, for
  another, \<open>ds\<close> with a delegation in the unbonded state inserted at position \<open>i\<close>
  (\<open>take i ds @ u # drop i ds\<close>; the positions are \<open>0, \<dots>, length ds\<close>, and a larger \<open>i\<close>
  appends). Then the distinct-staker count and the delegation count are the same for both
  handlers, and both are results, not errors.
\<close>

theorem unbonded_insertion_counts_unchanged:
  assumes "parsePublicKeyQuery env request ''finality_provider_pk_hex'' = (pk, None)"
    and "DelegationsByFinalityProviderPkHex (services h) pk = (ds, None)"
    and "DelegationsByFinalityProviderPkHex (services h') pk =
           (take i ds @ u # drop i ds, None)"
    and "State u = Unbonded_ToString env"
  shows "ret_result (GetStakerCountByFinalityProvider env h' request) =
           ret_result (GetStakerCountByFinalityProvider env h request) \<and>
         ret_result (GetDelegationsCountByFinalityProvider env h' request) =
           ret_result (GetDelegationsCountByFinalityProvider env h request) \<and>
         ret_result (GetStakerCountByFinalityProvider env h request) \<noteq> None \<and>
         ret_result (GetDelegationsCountByFinalityProvider env h request) \<noteq> None"
proof -
  let ?unb = "Unbonded_ToString env"
  let ?ins = "take i ds @ u # drop i ds"
  note eq = filter_insert_unbonded [OF assms(4), of i ds]
  have m: "Mapping.size (countMap_loop ?unb ?ins Mapping.empty) =
      Mapping.size (countMap_loop ?unb ds Mapping.empty)"
    by (simp only: size_countMap_loop_empty eq)
  have s: "length (countSlice_loop ?unb ?ins []) = length (countSlice_loop ?unb ds [])"
    by (simp only: countSlice_loop_eq eq)
  have "ret_result (GetStakerCountByFinalityProvider env h' request) =
      ret_result (GetStakerCountByFinalityProvider env h request)"
    using assms(1-3) by (simp add: GetStakerCountByFinalityProvider_def m)
  moreover have "ret_result (GetDelegationsCountByFinalityProvider env h' request) =
      ret_result (GetDelegationsCountByFinalityProvider env h request)"
    using assms(1-3) by (simp add: GetDelegationsCountByFinalityProvider_def s)
  moreover have "ret_result (GetStakerCountByFinalityProvider env h request) \<noteq> None"
    using assms(1,2) by (simp add: GetStakerCountByFinalityProvider_def)
  moreover have "ret_result (GetDelegationsCountByFinalityProvider env h request) \<noteq> None"
    using assms(1,2) by (simp add: GetDelegationsCountByFinalityProvider_def)
  ultimately show ?thesis
    by (intro conjI)
qed

theorem unbonded_insertion_counts_unchanged_witness:
  "State (delegation ''C'' ''unbonded'') = Unbonded_ToString example_env \<and>
   take 1 [delegation ''A'' ''active'', delegation ''B'' ''active''] @
     delegation ''C'' ''unbonded'' #
     drop 1 [delegation ''A'' ''active'', delegation ''B'' ''active''] =
     [delegation ''A'' ''active'', delegation ''C'' ''unbonded'', delegation ''B'' ''active''] \<and>
   ret_result (GetStakerCountByFinalityProvider example_env
     (example_handler
        [delegation ''A'' ''active'', delegation ''C'' ''unbonded'', delegation ''B'' ''active''])
     (example_request ''fp'' [] [])) =
   ret_result (GetStakerCountByFinalityProvider example_env
     (example_handler [delegation ''A'' ''active'', delegation ''B'' ''active''])
     (example_request ''fp'' [] [])) \<and>
   ret_result (GetDelegationsCountByFinalityProvider example_env
     (example_handler
        [delegation ''A'' ''active'', delegation ''C'' ''unbonded'', delegation ''B'' ''active''])
     (example_request ''fp'' [] [])) =
   ret_result (GetDelegationsCountByFinalityProvider example_env
     (example_handler [delegation ''A'' ''active'', delegation ''B'' ''active''])
     (example_request ''fp'' [] [])) \<and>
   ret_result (GetDelegationsCountByFinalityProvider example_env
     (example_handler [delegation ''A'' ''active'', delegation ''B'' ''active''])
     (example_request ''fp'' [] [])) \<noteq> None"
  using unbonded_insertion_counts_unchanged [of example_env "example_request ''fp'' [] []"
      "''fp''" "example_handler [delegation ''A'' ''active'', delegation ''B'' ''active'']"
      "[delegation ''A'' ''active'', delegation ''B'' ''active'']"
      "example_handler
        [delegation ''A'' ''active'', delegation ''C'' ''unbonded'', delegation ''B'' ''active'']"
      1 "delegation ''C'' ''unbonded''"]
  by (simp add: example_env_def example_handler_def example_services_def example_request_def
      example_parse_def Get_def delegation_def)

text \<open>
  C7. Let the provider-keyed fetch return \<open>ds\<close> for one handler and a permutation \<open>ds'\<close>
  of it (the same multiset of delegations) for another. Then
  \<^verbatim>\<open>GetStakerCountByFinalityProvider\<close> returns the same count for both.
\<close>

theorem staker_count_order_independent:
  assumes "parsePublicKeyQuery env request ''finality_provider_pk_hex'' = (pk, None)"
    and "DelegationsByFinalityProviderPkHex (services h) pk = (ds, None)"
    and "DelegationsByFinalityProviderPkHex (services h') pk = (ds', None)"
    and "mset ds' = mset ds"
  shows "ret_result (GetStakerCountByFinalityProvider env h' request) =
           ret_result (GetStakerCountByFinalityProvider env h request) \<and>
         ret_result (GetStakerCountByFinalityProvider env h request) \<noteq> None"
proof -
  let ?unb = "Unbonded_ToString env"
  from assms(4) have "mset (filter (\<lambda>d. State d \<noteq> ?unb) ds') =
      mset (filter (\<lambda>d. State d \<noteq> ?unb) ds)"
    by (simp only: mset_filter)
  then have "set (filter (\<lambda>d. State d \<noteq> ?unb) ds') = set (filter (\<lambda>d. State d \<noteq> ?unb) ds)"
    by (rule mset_eq_setD)
  then have "set (map StakerPkHex (filter (\<lambda>d. State d \<noteq> ?unb) ds')) =
      set (map StakerPkHex (filter (\<lambda>d. State d \<noteq> ?unb) ds))"
    by (simp only: set_map)
  then have m: "Mapping.size (countMap_loop ?unb ds' Mapping.empty) =
      Mapping.size (countMap_loop ?unb ds Mapping.empty)"
    by (simp only: size_countMap_loop_empty)
  have "ret_result (GetStakerCountByFinalityProvider env h' request) =
      ret_result (GetStakerCountByFinalityProvider env h request)"
    using assms(1-3) by (simp add: GetStakerCountByFinalityProvider_def m)
  moreover have "ret_result (GetStakerCountByFinalityProvider env h request) \<noteq> None"
    using assms(1,2) by (simp add: GetStakerCountByFinalityProvider_def)
  ultimately show ?thesis
    by (rule conjI)
qed

theorem staker_count_order_independent_witness:
  "mset [delegation ''B'' ''active'', delegation ''A'' ''unbonded'', delegation ''A'' ''active'',
         delegation ''A'' ''active''] =
   mset [delegation ''A'' ''active'', delegation ''A'' ''unbonded'', delegation ''B'' ''active'',
         delegation ''A'' ''active''] \<and>
   ret_result (GetStakerCountByFinalityProvider example_env
     (example_handler
        [delegation ''B'' ''active'', delegation ''A'' ''unbonded'', delegation ''A'' ''active'',
         delegation ''A'' ''active''])
     (example_request ''fp'' [] [])) =
   ret_result (GetStakerCountByFinalityProvider example_env
     (example_handler
        [delegation ''A'' ''active'', delegation ''A'' ''unbonded'', delegation ''B'' ''active'',
         delegation ''A'' ''active''])
     (example_request ''fp'' [] [])) \<and>
   ret_result (GetStakerCountByFinalityProvider example_env
     (example_handler
        [delegation ''A'' ''active'', delegation ''A'' ''unbonded'', delegation ''B'' ''active'',
         delegation ''A'' ''active''])
     (example_request ''fp'' [] [])) \<noteq> None"
  using staker_count_order_independent [of example_env "example_request ''fp'' [] []" "''fp''"
      "example_handler
        [delegation ''A'' ''active'', delegation ''A'' ''unbonded'', delegation ''B'' ''active'',
         delegation ''A'' ''active'']"
      "[delegation ''A'' ''active'', delegation ''A'' ''unbonded'', delegation ''B'' ''active'',
        delegation ''A'' ''active'']"
      "example_handler
        [delegation ''B'' ''active'', delegation ''A'' ''unbonded'', delegation ''A'' ''active'',
         delegation ''A'' ''active'']"
      "[delegation ''B'' ''active'', delegation ''A'' ''unbonded'', delegation ''A'' ''active'',
        delegation ''A'' ''active'']"]
  by (simp add: example_env_def example_handler_def example_services_def example_request_def
      example_parse_def Get_def delegation_def)

text \<open>
  C8. When the key parses and the provider-keyed fetch returns an error, whatever
  delegations it returns besides, both counting handlers return exactly that error and no
  result.
\<close>

theorem counting_fails_atomically:
  assumes "parsePublicKeyQuery env request ''finality_provider_pk_hex'' = (pk, None)"
    and "DelegationsByFinalityProviderPkHex (services h) pk = (delegations, Some e)"
  shows "GetStakerCountByFinalityProvider env h request =
           \<lparr>ret_result = None, ret_err = Some e,
            service_calls = [DelegationsByFinalityProviderPkHexCall pk]\<rparr> \<and>
         GetDelegationsCountByFinalityProvider env h request =
           \<lparr>ret_result = None, ret_err = Some e,
            service_calls = [DelegationsByFinalityProviderPkHexCall pk]\<rparr>"
  using assms
  by (simp add: GetStakerCountByFinalityProvider_def GetDelegationsCountByFinalityProvider_def)

theorem counting_fails_atomically_witness:
  "parsePublicKeyQuery example_env (example_request ''other'' [] [])
     ''finality_provider_pk_hex'' = (''other'', None) \<and>
   DelegationsByFinalityProviderPkHex
     (services (example_handler [delegation ''A'' ''active''])) ''other'' =
     ([delegation ''A'' ''active''], Some upstream_error) \<and>
   ret_result (GetStakerCountByFinalityProvider example_env
     (example_handler [delegation ''A'' ''active'']) (example_request ''other'' [] [])) = None \<and>
   ret_err (GetStakerCountByFinalityProvider example_env
     (example_handler [delegation ''A'' ''active'']) (example_request ''other'' [] [])) =
     Some upstream_error \<and>
   ret_result (GetDelegationsCountByFinalityProvider example_env
     (example_handler [delegation ''A'' ''active'']) (example_request ''other'' [] [])) = None \<and>
   ret_err (GetDelegationsCountByFinalityProvider example_env
     (example_handler [delegation ''A'' ''active'']) (example_request ''other'' [] [])) =
     Some upstream_error"
  using counting_fails_atomically [of example_env "example_request ''other'' [] []" "''other''"
      "example_handler [delegation ''A'' ''active'']" "[delegation ''A'' ''active'']"
      upstream_error]
  by (simp add: example_env_def example_handler_def example_services_def example_request_def
      example_parse_def Get_def)

section \<open>Properties of the server configuration\<close>

text \<open>
  C9. \<^verbatim>\<open>Validate\<close> returns \<^verbatim>\<open>nil\<close> exactly when the host parses as an IP address, the
  port lies between 0 and 65535 inclusive and the three timeouts are non-negative. The
  allowed origins and the log level are never examined: replacing them by any other
  values leaves the result of \<^verbatim>\<open>Validate\<close> unchanged.
\<close>

theorem Validate_nil_iff:
  "(Validate ParseIP cfg = None \<longleftrightarrow>
      ParseIP (Host cfg) \<noteq> None \<and> 0 \<le> Port cfg \<and> Port cfg \<le> 65535 \<and>
      0 \<le> sint (WriteTimeout cfg) \<and> 0 \<le> sint (ReadTimeout cfg) \<and>
      0 \<le> sint (IdleTimeout cfg)) \<and>
   Validate ParseIP (cfg\<lparr>AllowedOrigins := origins, LogLevel := level\<rparr>) = Validate ParseIP cfg"
  by (auto simp: Validate_def Let_def)

theorem Validate_nil_iff_witness:
  "Validate example_ParseIP (example_cfg 8090 15 ''bogus'') = None \<and>
   Validate example_ParseIP (example_cfg 0 0 []) = None \<and>
   Validate example_ParseIP (example_cfg 65535 15 []) = None \<and>
   Validate example_ParseIP (example_cfg 65536 15 []) = Some ''invalid port'' \<and>
   Validate example_ParseIP (example_cfg (- 1) 15 []) = Some ''invalid port'' \<and>
   Validate example_ParseIP (example_cfg 8090 (- 1) []) =
     Some ''read timeout cannot be negative'' \<and>
   Validate example_ParseIP ((example_cfg 8090 15 [])\<lparr>Host := ''localhost''\<rparr>) =
     Some ''invalid host: localhost''"
  using
    Validate_nil_iff [of example_ParseIP "example_cfg 8090 15 ''bogus''"]
    Validate_nil_iff [of example_ParseIP "example_cfg 0 0 []"]
    Validate_nil_iff [of example_ParseIP "example_cfg 65535 15 []"]
    Validate_nil_iff [of example_ParseIP "example_cfg 65536 15 []"]
    Validate_nil_iff [of example_ParseIP "example_cfg (- 1) 15 []"]
    Validate_nil_iff [of example_ParseIP "example_cfg 8090 (- 1) []"]
    Validate_nil_iff [of example_ParseIP "(example_cfg 8090 15 [])\<lparr>Host := ''localhost''\<rparr>"]
  by (simp add: Validate_def example_ParseIP_def example_cfg_def)

text \<open>
  C10. \<^verbatim>\<open>ValidateServerLogLevel\<close> returns \<^verbatim>\<open>nil\<close> for the empty log level. For a
  non-empty one it returns \<^verbatim>\<open>nil\<close> exactly when \<^verbatim>\<open>zerolog.ParseLevel\<close> succeeds with a
  level from debug to fatal inclusive. A string that does not parse is rejected with the
  parser's error wrapped, and a string that parses to the trace level or to the disabled
  level is rejected as out of range.
\<close>

theorem ValidateServerLogLevel_nil_iff:
  "(LogLevel cfg = [] \<longrightarrow> ValidateServerLogLevel ParseLevel cfg = None) \<and>
   (LogLevel cfg \<noteq> [] \<longrightarrow>
      (ValidateServerLogLevel ParseLevel cfg = None \<longleftrightarrow>
         snd (ParseLevel (LogLevel cfg)) = None \<and>
         sint DebugLevel \<le> sint (fst (ParseLevel (LogLevel cfg))) \<and>
         sint (fst (ParseLevel (LogLevel cfg))) \<le> sint FatalLevel)) \<and>
   (LogLevel cfg \<noteq> [] \<and> snd (ParseLevel (LogLevel cfg)) = Some e \<longrightarrow>
      ValidateServerLogLevel ParseLevel cfg = Some (''invalid log level: '' @ e)) \<and>
   (LogLevel cfg \<noteq> [] \<and>
    (ParseLevel (LogLevel cfg) = (TraceLevel, None) \<or>
     ParseLevel (LogLevel cfg) = (Disabled, None)) \<longrightarrow>
      ValidateServerLogLevel ParseLevel cfg =
        Some ''only log levels from debug to fatal are supported'')"
  by (auto simp: ValidateServerLogLevel_def DebugLevel_def FatalLevel_def TraceLevel_def
      Disabled_def split: prod.splits option.splits)

theorem ValidateServerLogLevel_nil_iff_witness:
  "ValidateServerLogLevel example_ParseLevel (example_cfg 8090 15 []) = None \<and>
   ValidateServerLogLevel example_ParseLevel (example_cfg 8090 15 ''debug'') = None \<and>
   ValidateServerLogLevel example_ParseLevel (example_cfg 8090 15 ''fatal'') = None \<and>
   ValidateServerLogLevel example_ParseLevel (example_cfg 8090 15 ''trace'') =
     Some ''only log levels from debug to fatal are supported'' \<and>
   ValidateServerLogLevel example_ParseLevel (example_cfg 8090 15 ''disabled'') =
     Some ''only log levels from debug to fatal are supported'' \<and>
   ValidateServerLogLevel example_ParseLevel (example_cfg 8090 15 ''verbose'') =
     Some ''invalid log level: Unknown Level String''"
  using
    ValidateServerLogLevel_nil_iff [of "example_cfg 8090 15 []" example_ParseLevel]
    ValidateServerLogLevel_nil_iff [of "example_cfg 8090 15 ''debug''" example_ParseLevel]
    ValidateServerLogLevel_nil_iff [of "example_cfg 8090 15 ''fatal''" example_ParseLevel]
    ValidateServerLogLevel_nil_iff [of "example_cfg 8090 15 ''trace''" example_ParseLevel]
    ValidateServerLogLevel_nil_iff [of "example_cfg 8090 15 ''disabled''" example_ParseLevel]
    ValidateServerLogLevel_nil_iff [of "example_cfg 8090 15 ''verbose''" example_ParseLevel
      "''Unknown Level String''"]
  by (simp add: example_cfg_def example_ParseLevel_def DebugLevel_def FatalLevel_def
      TraceLevel_def Disabled_def)

end
